theory Spec2Isabelle
  imports Complex_Main "HOL-Library.Sublist"
begin

section \<open>JavaScript numbers\<close>

text \<open>
  A value of the JavaScript type \<open>number\<close> is \<open>NaN\<close>, one of the two infinities
  or a finite number; finite numbers are reals here, so the rounding of doubles and
  the sign of zero are left out. The operations follow ECMAScript: \<open>NaN\<close> is
  contagious in arithmetic and in \<open>Math.min\<close> and \<open>Math.max\<close>, and every
  comparison with \<open>NaN\<close> is false.
\<close>

datatype jsnum = NaN | PInf | NInf | Fin real

fun js_neg :: "jsnum \<Rightarrow> jsnum" where
  "js_neg NaN = NaN"
| "js_neg PInf = NInf"
| "js_neg NInf = PInf"
| "js_neg (Fin a) = Fin (- a)"

fun js_add :: "jsnum \<Rightarrow> jsnum \<Rightarrow> jsnum" where
  "js_add (Fin a) (Fin b) = Fin (a + b)"
| "js_add NaN _ = NaN"
| "js_add _ NaN = NaN"
| "js_add PInf NInf = NaN"
| "js_add NInf PInf = NaN"
| "js_add PInf _ = PInf"
| "js_add _ PInf = PInf"
| "js_add NInf _ = NInf"
| "js_add _ NInf = NInf"

definition js_sub :: "jsnum \<Rightarrow> jsnum \<Rightarrow> jsnum" where
  "js_sub a b = js_add a (js_neg b)"

definition js_signed_inf :: "bool \<Rightarrow> jsnum" where
  "js_signed_inf positive = (if positive then PInf else NInf)"

fun js_mul :: "jsnum \<Rightarrow> jsnum \<Rightarrow> jsnum" where
  "js_mul (Fin a) (Fin b) = Fin (a * b)"
| "js_mul NaN _ = NaN"
| "js_mul _ NaN = NaN"
| "js_mul (Fin a) PInf = (if a = 0 then NaN else js_signed_inf (a > 0))"
| "js_mul (Fin a) NInf = (if a = 0 then NaN else js_signed_inf (a < 0))"
| "js_mul PInf (Fin b) = (if b = 0 then NaN else js_signed_inf (b > 0))"
| "js_mul NInf (Fin b) = (if b = 0 then NaN else js_signed_inf (b < 0))"
| "js_mul PInf PInf = PInf"
| "js_mul NInf NInf = PInf"
| "js_mul PInf NInf = NInf"
| "js_mul NInf PInf = NInf"

fun js_div :: "jsnum \<Rightarrow> jsnum \<Rightarrow> jsnum" where
  "js_div (Fin a) (Fin b) =
     (if b = 0 then (if a = 0 then NaN else js_signed_inf (a > 0)) else Fin (a / b))"
| "js_div NaN _ = NaN"
| "js_div _ NaN = NaN"
| "js_div (Fin a) _ = Fin 0"
| "js_div PInf (Fin b) = js_signed_inf (b \<ge> 0)"
| "js_div NInf (Fin b) = js_signed_inf (b < 0)"
| "js_div _ _ = NaN"

fun js_gt :: "jsnum \<Rightarrow> jsnum \<Rightarrow> bool" where
  "js_gt (Fin a) (Fin b) = (a > b)"
| "js_gt NaN _ = False"
| "js_gt _ NaN = False"
| "js_gt NInf _ = False"
| "js_gt _ PInf = False"
| "js_gt PInf _ = True"
| "js_gt _ NInf = True"

definition js_ge :: "jsnum \<Rightarrow> jsnum \<Rightarrow> bool" where
  "js_ge a b = (js_gt a b \<or> (a = b \<and> a \<noteq> NaN))"

definition Math_min :: "jsnum \<Rightarrow> jsnum \<Rightarrow> jsnum" where
  "Math_min a b = (if a = NaN \<or> b = NaN then NaN else if js_gt a b then b else a)"

definition Math_max :: "jsnum \<Rightarrow> jsnum \<Rightarrow> jsnum" where
  "Math_max a b = (if a = NaN \<or> b = NaN then NaN else if js_gt b a then b else a)"

section \<open>Healing confidence (FailureAnalyzer.service.ts)\<close>

text \<open>
  Strings are \<open>string\<close>. A \<open>switch\<close> over a string with no \<open>default\<close> branch
  leaves the accumulator as it is when no \<open>case\<close> label matches. Up to the last
  addition the accumulator \<open>confidence\<close> holds the literal 50 plus and minus literals,
  a finite number; the last addition brings in \<open>elementStability\<close>, any number.
\<close>

record HealingConfidenceParams =
  strategy :: string
  locatorType :: string
  previousFailures :: jsnum
  elementStability :: jsnum

text \<open>\<open>calculateHealingConfidence\<close>, statement by statement.\<close>

definition strategy_adjust :: "string \<Rightarrow> real \<Rightarrow> real" where
  "strategy_adjust s confidence =
     (if s = ''ai_suggested'' then confidence + 30
      else if s = ''similarity_match'' then confidence + 20
      else if s = ''fallback_chain'' then confidence + 25
      else confidence)"

definition locatorType_adjust :: "string \<Rightarrow> real \<Rightarrow> real" where
  "locatorType_adjust t confidence =
     (if t = ''id'' \<or> t = ''accessibilityId'' then confidence + 15
      else if t = ''xpath'' then confidence + 5
      else if t = ''class'' then confidence + 0
      else confidence)"

definition previousFailures_adjust :: "jsnum \<Rightarrow> real \<Rightarrow> real" where
  "previousFailures_adjust n confidence =
     (if js_gt n (Fin 5) then confidence - 20
      else if js_gt n (Fin 2) then confidence - 10
      else confidence)"

definition calculateHealingConfidence :: "HealingConfidenceParams \<Rightarrow> jsnum" where
  "calculateHealingConfidence params =
     (let confidence = 50;
          confidence = strategy_adjust (strategy params) confidence;
          confidence = locatorType_adjust (locatorType params) confidence;
          confidence = previousFailures_adjust (previousFailures params) confidence;
          confidence = js_add (Fin confidence) (js_mul (elementStability params) (Fin 10))
      in Math_max (Fin 0) (Math_min (Fin 100) confidence))"

text \<open>
  The scoring formula as the specification words it, for comparison with the code:
  base 50; strategy bonus FallbackChain 25, AiSuggested 20, SimilarityMatch 15;
  locator-type bonus accessibility-id 15, resource-id 12, xpath/css 5,
  platform-specific automation query 3; up to 10 scaled by the stability;
  5 above a test success rate of 0.95, 3 above 0.8; minus 5 per earlier failed
  attempt; clamped to [0,100].
\<close>

definition spec_score :: "string \<Rightarrow> string \<Rightarrow> int \<Rightarrow> real \<Rightarrow> real option \<Rightarrow> real" where
  "spec_score strat ltype failures stability testSuccessRate =
     max 0 (min 100
       (50
        + (if strat = ''fallback_chain'' then 25
           else if strat = ''ai_suggested'' then 20
           else if strat = ''similarity_match'' then 15 else 0)
        + (if ltype = ''accessibilityId'' then 15
           else if ltype = ''id'' then 12
           else if ltype = ''xpath'' \<or> ltype = ''css'' then 5
           else if ltype = ''androidUIAutomator'' \<or> ltype = ''iOSNsPredicate'' then 3
           else 0)
        + 10 * stability
        + (case testSuccessRate of
             None \<Rightarrow> 0
           | Some r \<Rightarrow> if r > 0.95 then 5 else if r > 0.8 then 3 else 0)
        - 5 * real_of_int failures))"

section \<open>JavaScript values\<close>

text \<open>
  A value that \<open>JSON.parse\<close> can yield, and \<open>undefined\<close>. An object is the list
  of its own properties, each name once. Reading a property that a value does not
  have yields \<open>undefined\<close>; none of the property names read below exists on the
  prototype of a number, string, boolean, array or plain object.
\<close>

datatype jsval =
    JUndefined
  | JNull
  | JBool bool
  | JNum jsnum
  | JStr string
  | JArr "jsval list"
  | JObj "(string \<times> jsval) list"

fun get_prop :: "jsval \<Rightarrow> string \<Rightarrow> jsval" where
  "get_prop (JObj props) name = (case map_of props name of Some v \<Rightarrow> v | None \<Rightarrow> JUndefined)"
| "get_prop _ name = JUndefined"

fun truthy :: "jsval \<Rightarrow> bool" where
  "truthy JUndefined = False"
| "truthy JNull = False"
| "truthy (JBool b) = b"
| "truthy (JNum n) = (n \<noteq> NaN \<and> n \<noteq> Fin 0)"
| "truthy (JStr s) = (s \<noteq> [])"
| "truthy (JArr _) = True"
| "truthy (JObj _) = True"

text \<open>\<open>a || b\<close>\<close>

definition js_or :: "jsval \<Rightarrow> jsval \<Rightarrow> jsval" where
  "js_or a b = (if truthy a then a else b)"

text \<open>
  The conversion \<open>ToNumber\<close> that \<open>Math.min\<close> applies to its arguments. Two parts
  of it belong to the language and are parameters here: the number that a string
  denotes, and the string that an array or object converts to.
\<close>

record JsRuntime =
  StringToNumber :: "string \<Rightarrow> jsnum"
  ObjectToString :: "jsval \<Rightarrow> string"

fun toNumber :: "JsRuntime \<Rightarrow> jsval \<Rightarrow> jsnum" where
  "toNumber rt JUndefined = NaN"
| "toNumber rt JNull = Fin 0"
| "toNumber rt (JBool b) = Fin (if b then 1 else 0)"
| "toNumber rt (JNum n) = n"
| "toNumber rt (JStr s) = StringToNumber rt s"
| "toNumber rt (JArr xs) = StringToNumber rt (ObjectToString rt (JArr xs))"
| "toNumber rt (JObj props) = StringToNumber rt (ObjectToString rt (JObj props))"

fun isArray :: "jsval \<Rightarrow> bool" where
  "isArray (JArr _) = True"
| "isArray _ = False"

fun elements :: "jsval \<Rightarrow> jsval list" where
  "elements (JArr xs) = xs"
| "elements _ = []"

section \<open>Failure triage (failure.types.ts, FailureAnalyzer.service.ts)\<close>

text \<open>
  The enum \<open>FailureCategory\<close> of failure.types.ts has the five members below.
  It has no member \<open>UNKNOWN\<close> (the enum \<open>FailureType\<close> next to it has one), yet
  FailureAnalyzer.service.ts reads \<open>FailureCategory.UNKNOWN\<close>: reading a property
  that an enum object lacks yields \<open>undefined\<close>. A category that may be
  \<open>undefined\<close> is a \<open>FailureCategory option\<close>, with \<open>None\<close> for \<open>undefined\<close>.
\<close>

datatype FailureCategory =
  ACTUAL_BUG | FLAKY_LOCATOR | TIMING_ISSUE | ENVIRONMENTAL_ISSUE | TEST_DATA_ISSUE

fun FailureCategory_value :: "FailureCategory \<Rightarrow> string" where
  "FailureCategory_value ACTUAL_BUG = ''actual_bug''"
| "FailureCategory_value FLAKY_LOCATOR = ''flaky_locator''"
| "FailureCategory_value TIMING_ISSUE = ''timing_issue''"
| "FailureCategory_value ENVIRONMENTAL_ISSUE = ''environmental_issue''"
| "FailureCategory_value TEST_DATA_ISSUE = ''test_data_issue''"

definition FailureCategory_UNKNOWN :: "FailureCategory option" where
  "FailureCategory_UNKNOWN = None"

record FailureContext =
  testName :: string
  platform :: string
  errorMessage :: string
  stackTrace :: string
  locatorUsed :: "string option"
  screenshot :: "string option"
  logs :: "string list option"

text \<open>
  The result of an analysis. The interface declares strings and string arrays, but
  \<open>normalizeAnalysis\<close> passes on whatever the oracle's answer holds, so reasoning,
  evidence, actions and root cause are JavaScript values.
\<close>

record FailureAnalysisResult =
  category :: "FailureCategory option"
  confidence :: jsnum
  reasoning :: jsval
  evidencePoints :: "jsval list"
  suggestedActions :: "jsval list"
  rootCause :: jsval
  bugProbability :: jsnum

text \<open>
  What the oracle call and the parse of its answer come to: the call throws, the answer
  is not JSON, or it parses to a value.
\<close>

datatype oracle_analysis = CallFails | ParseFails | Parsed jsval

subsection \<open>String helpers of the JavaScript library (ASCII)\<close>

definition toLowerCase_char :: "char \<Rightarrow> char" where
  "toLowerCase_char c =
     (case map_of (zip ''ABCDEFGHIJKLMNOPQRSTUVWXYZ'' ''abcdefghijklmnopqrstuvwxyz'') c of
        Some l \<Rightarrow> l
      | None \<Rightarrow> c)"

definition toLowerCase :: "string \<Rightarrow> string" where
  "toLowerCase s = map toLowerCase_char s"

fun str_includes :: "string \<Rightarrow> string \<Rightarrow> bool" where
  "str_includes [] sub = (sub = [])"
| "str_includes (c # cs) sub = (prefix sub (c # cs) \<or> str_includes cs sub)"

subsection \<open>\<open>calculateBugProbability\<close>\<close>

fun categoryProbabilities :: "FailureCategory \<Rightarrow> real" where
  "categoryProbabilities ACTUAL_BUG = 90"
| "categoryProbabilities FLAKY_LOCATOR = 10"
| "categoryProbabilities TIMING_ISSUE = 30"
| "categoryProbabilities ENVIRONMENTAL_ISSUE = 5"
| "categoryProbabilities TEST_DATA_ISSUE = 20"

definition calculateBugProbability :: "FailureCategory option \<Rightarrow> jsnum \<Rightarrow> jsnum" where
  "calculateBugProbability cat conf =
     (let baseProbability = (case cat of Some c \<Rightarrow> categoryProbabilities c | None \<Rightarrow> 50);
          adjustment = js_mul (js_div (js_sub conf (Fin 50)) (Fin 50)) (Fin 20)
      in Math_max (Fin 0) (Math_min (Fin 100) (js_add (Fin baseProbability) adjustment)))"

subsection \<open>\<open>normalizeAnalysis\<close>\<close>

definition validCategories :: "FailureCategory list" where
  "validCategories =
     [ACTUAL_BUG, FLAKY_LOCATOR, TIMING_ISSUE, ENVIRONMENTAL_ISSUE, TEST_DATA_ISSUE]"

text \<open>
  \<open>validCategories.includes(analysis.category)\<close> compares with the five strings, so
  only a string equal to one of them is kept. Reading a property of \<open>null\<close> or
  \<open>undefined\<close> throws a \<open>TypeError\<close>: the result \<open>None\<close>.
\<close>

definition normalizeAnalysis :: "JsRuntime \<Rightarrow> jsval \<Rightarrow> FailureAnalysisResult option" where
  "normalizeAnalysis rt analysis =
     (if analysis = JNull \<or> analysis = JUndefined then None
      else
        (let cat = (case get_prop analysis ''category'' of
                      JStr s \<Rightarrow>
                        (case find (\<lambda>c. FailureCategory_value c = s) validCategories of
                           Some c \<Rightarrow> Some c
                         | None \<Rightarrow> FailureCategory_UNKNOWN)
                    | _ \<Rightarrow> FailureCategory_UNKNOWN);
             conf = Math_max (Fin 0) (Math_min (Fin 100)
                      (toNumber rt (js_or (get_prop analysis ''confidence'') (JNum (Fin 50)))));
             bugProb = calculateBugProbability cat conf
         in Some
           \<lparr>category = cat,
            confidence = conf,
            reasoning = js_or (get_prop analysis ''reasoning'') (JStr ''No reasoning provided''),
            evidencePoints =
              (if isArray (get_prop analysis ''evidencePoints'')
               then elements (get_prop analysis ''evidencePoints'') else []),
            suggestedActions =
              (if isArray (get_prop analysis ''suggestedActions'')
               then elements (get_prop analysis ''suggestedActions'') else []),
            rootCause = js_or (get_prop analysis ''rootCause'') JUndefined,
            bugProbability = bugProb\<rparr>))"

subsection \<open>\<open>getFallbackAnalysis\<close>\<close>

definition getFallbackAnalysis :: "FailureContext \<Rightarrow> FailureAnalysisResult" where
  "getFallbackAnalysis context =
     (let errorLower = toLowerCase (errorMessage context);
          stackLower = toLowerCase (stackTrace context);
          (cat, reason, evidence) =
            (if str_includes errorLower ''element not found''
                \<or> str_includes errorLower ''no such element''
                \<or> str_includes errorLower ''could not find''
             then (Some FLAKY_LOCATOR, ''Error message indicates element not found'',
                   [''Element not found error detected''])
             else if str_includes errorLower ''timeout''
                \<or> str_includes errorLower ''timed out''
                \<or> str_includes errorLower ''wait''
             then (Some TIMING_ISSUE, ''Error message indicates timeout'',
                   [''Timeout error detected''])
             else if str_includes errorLower ''network''
                \<or> str_includes errorLower ''connection''
                \<or> str_includes errorLower ''econnrefused''
             then (Some ENVIRONMENTAL_ISSUE,
                   ''Error message indicates network/connection issue'',
                   [''Network error detected''])
             else if str_includes errorLower ''assertion''
                \<or> str_includes errorLower ''expected''
                \<or> str_includes errorLower ''actual''
             then (Some ACTUAL_BUG, ''Assertion failure likely indicates a bug'',
                   [''Assertion failure detected''])
             else (FailureCategory_UNKNOWN, ''Fallback rule-based analysis'', []));
          bugProb = calculateBugProbability cat (Fin 50)
      in \<lparr>category = cat,
          confidence = Fin 50,
          reasoning = JStr reason,
          evidencePoints = map JStr evidence,
          suggestedActions =
            [JStr ''Review error message and stack trace'',
             JStr ''Check recent code changes'',
             JStr ''Verify test environment''],
          rootCause = JUndefined,
          bugProbability = bugProb\<rparr>)"

subsection \<open>\<open>analyzeFailure\<close>\<close>

text \<open>
  The oracle is a parameter: a function from the failure context sent to it to what
  the call and the parse come to. Every exception inside the \<open>try\<close> block, also the
  \<open>TypeError\<close> of \<open>normalizeAnalysis\<close>, is caught and answered with the rule-based
  fallback.
\<close>

definition analyzeFailure ::
  "JsRuntime \<Rightarrow> (FailureContext \<Rightarrow> oracle_analysis) \<Rightarrow> FailureContext
     \<Rightarrow> FailureAnalysisResult" where
  "analyzeFailure rt claudeClient context =
     (case claudeClient context of
        Parsed analysis \<Rightarrow>
          (case normalizeAnalysis rt analysis of
             Some normalizedAnalysis \<Rightarrow> normalizedAnalysis
           | None \<Rightarrow> getFallbackAnalysis context)
      | CallFails \<Rightarrow> getFallbackAnalysis context
      | ParseFails \<Rightarrow> getFallbackAnalysis context)"

section \<open>Locator changes (LocatorChange.model.ts, the schema)\<close>

text \<open>
  The table \<open>locator_changes\<close> is a map from row ids to rows; the database hands out
  the next free id on insert. Row ids (UUIDs in the source) and timestamps are natural
  numbers; the time of an operation is its parameter \<open>now\<close>. An \<open>UPDATE ... WHERE
  id = $1\<close> changes nothing when no row has the id. The schema constrains an insert:
  \<open>confidence\<close> is an INTEGER with a CHECK between 0 and 100, \<open>healing_strategy\<close>
  is one of three names, \<open>test_case_id\<close> and \<open>failure_id\<close> reference rows of the
  tables \<open>test_cases\<close> and \<open>failures\<close>. A refused insert is an exception in the
  source and stores nothing.
\<close>

record Locator =
  loc_type :: string
  loc_value :: string

datatype ChangeStatus = pending_approval | approved | rejected | auto_applied

fun ChangeStatus_value :: "ChangeStatus \<Rightarrow> string" where
  "ChangeStatus_value pending_approval = ''pending_approval''"
| "ChangeStatus_value approved = ''approved''"
| "ChangeStatus_value rejected = ''rejected''"
| "ChangeStatus_value auto_applied = ''auto_applied''"

datatype db_error =
    invalid_integer
  | check_violation string
  | foreign_key_violation string

record ChangeMetadata =
  md_timestamp :: nat
  md_autoApplyThreshold :: int

record LocatorChange =
  lc_testCaseId :: "string option"
  lc_failureId :: "string option"
  lc_oldLocator :: Locator
  lc_newLocator :: Locator
  lc_healingStrategy :: string
  lc_confidence :: int
  lc_status :: ChangeStatus
  lc_appliedAt :: "nat option"
  lc_success :: "bool option"
  lc_metadata :: "ChangeMetadata option"
  lc_createdAt :: nat
  lc_updatedAt :: nat

record HealingRecord =
  h_date :: nat
  h_oldLocator :: Locator
  h_newLocator :: Locator
  h_reason :: string

record LocatorDefinition =
  primary :: Locator
  fallbacks :: "Locator list"
  lastVerified :: nat
  healingHistory :: "HealingRecord list"

text \<open>
  The state the healing service works on: the table and the next row id, the ids of
  the rows of \<open>test_cases\<close> and \<open>failures\<close>, and the content of locators.json, the
  live locator definitions by page and element.
\<close>

record Store =
  locator_changes :: "nat \<rightharpoonup> LocatorChange"
  next_id :: nat
  test_cases :: "string set"
  failures :: "string set"
  locators_file :: "(string \<times> string) \<rightharpoonup> LocatorDefinition"

record CreateData =
  cd_testCaseId :: "string option"
  cd_failureId :: "string option"
  cd_oldLocator :: Locator
  cd_newLocator :: Locator
  cd_healingStrategy :: string
  cd_confidence :: jsnum
  cd_status :: "ChangeStatus option"
  cd_metadata :: "ChangeMetadata option"

text \<open>\<open>x || null\<close> for an optional string: a missing or empty string is \<open>null\<close>.\<close>

definition or_null :: "string option \<Rightarrow> string option" where
  "or_null x = (case x of Some s \<Rightarrow> if s = [] then None else Some s | None \<Rightarrow> None)"

definition integer_in_range :: "jsnum \<Rightarrow> bool" where
  "integer_in_range c =
     (case c of Fin r \<Rightarrow> real_of_int \<lfloor>r\<rfloor> = r \<and> 0 \<le> r \<and> r \<le> 100 | _ \<Rightarrow> False)"

definition references :: "string set \<Rightarrow> string option \<Rightarrow> bool" where
  "references keys ref = (case or_null ref of None \<Rightarrow> True | Some k \<Rightarrow> k \<in> keys)"

definition healing_strategies :: "string set" where
  "healing_strategies = {''ai_suggested'', ''similarity_match'', ''fallback_chain''}"

text \<open>The first constraint of the schema that an insert violates, if any.\<close>

definition create_error :: "CreateData \<Rightarrow> Store \<Rightarrow> db_error option" where
  "create_error data st =
     (case cd_confidence data of
        Fin r \<Rightarrow>
          if real_of_int \<lfloor>r\<rfloor> \<noteq> r then Some invalid_integer
          else if cd_healingStrategy data \<notin> healing_strategies
            then Some (check_violation ''healing_strategy'')
          else if r < 0 \<or> r > 100 then Some (check_violation ''confidence'')
          else if \<not> references (test_cases st) (cd_testCaseId data)
            then Some (foreign_key_violation ''test_case_id'')
          else if \<not> references (failures st) (cd_failureId data)
            then Some (foreign_key_violation ''failure_id'')
          else None
      | _ \<Rightarrow> Some invalid_integer)"

definition stored_confidence :: "jsnum \<Rightarrow> int" where
  "stored_confidence c = (case c of Fin r \<Rightarrow> \<lfloor>r\<rfloor> | _ \<Rightarrow> 0)"

definition LocatorChangeModel_create ::
  "nat \<Rightarrow> CreateData \<Rightarrow> Store \<Rightarrow> db_error + nat \<times> Store" where
  "LocatorChangeModel_create now data st =
     (case create_error data st of
        Some e \<Rightarrow> Inl e
      | None \<Rightarrow>
          (let row = \<lparr>lc_testCaseId = or_null (cd_testCaseId data),
                      lc_failureId = or_null (cd_failureId data),
                      lc_oldLocator = cd_oldLocator data,
                      lc_newLocator = cd_newLocator data,
                      lc_healingStrategy = cd_healingStrategy data,
                      lc_confidence = stored_confidence (cd_confidence data),
                      lc_status = (case cd_status data of
                                     Some s \<Rightarrow> s | None \<Rightarrow> pending_approval),
                      lc_appliedAt = None,
                      lc_success = None,
                      lc_metadata = cd_metadata data,
                      lc_createdAt = now,
                      lc_updatedAt = now\<rparr>
           in Inr (next_id st,
                   st\<lparr>locator_changes := (locator_changes st)(next_id st \<mapsto> row),
                      next_id := Suc (next_id st)\<rparr>)))"

definition LocatorChangeModel_findById :: "nat \<Rightarrow> Store \<Rightarrow> LocatorChange option" where
  "LocatorChangeModel_findById changeId st = locator_changes st changeId"

definition update_row :: "nat \<Rightarrow> (LocatorChange \<Rightarrow> LocatorChange) \<Rightarrow> Store \<Rightarrow> Store" where
  "update_row changeId f st =
     (case locator_changes st changeId of
        None \<Rightarrow> st
      | Some row \<Rightarrow> st\<lparr>locator_changes := (locator_changes st)(changeId \<mapsto> f row)\<rparr>)"

definition LocatorChangeModel_approve :: "nat \<Rightarrow> nat \<Rightarrow> Store \<Rightarrow> Store" where
  "LocatorChangeModel_approve now changeId st =
     update_row changeId (\<lambda>row. row\<lparr>lc_status := approved, lc_appliedAt := Some now,
                               lc_updatedAt := now\<rparr>) st"

definition LocatorChangeModel_reject :: "nat \<Rightarrow> nat \<Rightarrow> Store \<Rightarrow> Store" where
  "LocatorChangeModel_reject now changeId st =
     update_row changeId (\<lambda>row. row\<lparr>lc_status := rejected, lc_updatedAt := now\<rparr>) st"

definition LocatorChangeModel_markAutoApplied :: "nat \<Rightarrow> nat \<Rightarrow> bool \<Rightarrow> Store \<Rightarrow> Store" where
  "LocatorChangeModel_markAutoApplied now changeId succ st =
     update_row changeId (\<lambda>row. row\<lparr>lc_status := auto_applied, lc_appliedAt := Some now,
                               lc_success := Some succ, lc_updatedAt := now\<rparr>) st"

section \<open>Locator healing (LocatorHealer.service.ts)\<close>

text \<open>
  A suggestion as the interface \<open>LocatorSuggestion\<close> declares it: two strings and a
  number.
\<close>

record LocatorSuggestion =
  sug_type :: string
  sug_value :: string
  sug_confidence :: jsnum
  sug_reasoning :: string

record LocatorSuggestionResult =
  suggestedLocators :: "LocatorSuggestion list"
  elementDescription :: string
  additionalNotes :: "string option"

record SuggestParams =
  sp_locatorType :: string
  sp_locatorValue :: string
  sp_error :: string
  sp_pageContext :: string
  sp_screenshot :: string

text \<open>
  What \<open>claudeClient.suggestLocator\<close> followed by \<open>parseJsonResponse\<close> comes to:
  an exception with its message (the call throws, the answer does not parse, or the
  parsed value has no \<open>suggestedLocators\<close> array to take the length of), or the
  parsed suggestions.
\<close>

datatype oracle_suggestion = SuggestFails string | Suggested LocatorSuggestionResult

definition suggestLocators ::
  "(SuggestParams \<Rightarrow> oracle_suggestion) \<Rightarrow> SuggestParams \<Rightarrow> LocatorSuggestionResult" where
  "suggestLocators claudeClient params =
     (case claudeClient params of
        Suggested suggestions \<Rightarrow> suggestions
      | SuggestFails msg \<Rightarrow>
          \<lparr>suggestedLocators = [],
           elementDescription = ''Unable to analyze element'',
           additionalNotes = Some (''Error: '' @ msg)\<rparr>)"

record HealingResult =
  hr_success :: bool
  hr_newLocator :: "Locator option"
  hr_confidence :: jsnum
  hr_strategy :: string
  hr_changeId :: "nat option"

record HealParams =
  hp_page :: string
  hp_element :: string
  hp_failedLocator :: Locator
  hp_fallbackLocators :: "Locator list option"
  hp_error :: string
  hp_screenshot :: "string option"
  hp_failureId :: "string option"

text \<open>
  \<open>appConfig.selfHealing.autoApplyThreshold\<close>: the integer that the environment
  variable SELF_HEALING_THRESHOLD parses to, 85 when the variable is not set.
\<close>

definition autoApplyThreshold_config :: "int option \<Rightarrow> int" where
  "autoApplyThreshold_config env = (case env of Some n \<Rightarrow> n | None \<Rightarrow> 85)"

definition tryFallbackChain :: "Locator list \<Rightarrow> HealingResult" where
  "tryFallbackChain fallbackLocators =
     (case fallbackLocators of
        first # _ \<Rightarrow>
          \<lparr>hr_success = True, hr_newLocator = Some first, hr_confidence = Fin 75,
           hr_strategy = ''fallback_chain'', hr_changeId = None\<rparr>
      | [] \<Rightarrow>
          \<lparr>hr_success = False, hr_newLocator = None, hr_confidence = Fin 0,
           hr_strategy = ''fallback_chain'', hr_changeId = None\<rparr>)"

text \<open>
  \<open>reduce\<close> without an initial value starts from the first suggestion and replaces
  the best one only by a strictly more confident one.
\<close>

definition better :: "LocatorSuggestion \<Rightarrow> LocatorSuggestion \<Rightarrow> LocatorSuggestion" where
  "better best current =
     (if js_gt (sug_confidence current) (sug_confidence best) then current else best)"

definition bestSuggestion :: "LocatorSuggestion list \<Rightarrow> LocatorSuggestion" where
  "bestSuggestion suggestions = foldl better (hd suggestions) (tl suggestions)"

definition tryAISuggestion ::
  "(SuggestParams \<Rightarrow> oracle_suggestion) \<Rightarrow> SuggestParams \<Rightarrow> HealingResult" where
  "tryAISuggestion claudeClient params =
     (let suggestions = suggestLocators claudeClient params
      in if suggestedLocators suggestions \<noteq> []
         then (let best = bestSuggestion (suggestedLocators suggestions)
               in \<lparr>hr_success = True,
                   hr_newLocator = Some \<lparr>loc_type = sug_type best, loc_value = sug_value best\<rparr>,
                   hr_confidence = sug_confidence best,
                   hr_strategy = ''ai_suggested'', hr_changeId = None\<rparr>)
         else \<lparr>hr_success = False, hr_newLocator = None, hr_confidence = Fin 0,
               hr_strategy = ''ai_suggested'', hr_changeId = None\<rparr>)"

text \<open>
  \<open>applyLocatorChange\<close>: the source leaves locators.json alone (``for now, we'll
  just mark it as applied'') and stamps the row through \<open>markAutoApplied\<close>. A missing
  row throws inside the \<open>try\<close>; the handler stamps the row as failed, which changes
  nothing for a missing row, and answers \<open>false\<close>.
\<close>

definition applyLocatorChange :: "nat \<Rightarrow> nat \<Rightarrow> Store \<Rightarrow> bool \<times> Store" where
  "applyLocatorChange now changeId st =
     (case LocatorChangeModel_findById changeId st of
        None \<Rightarrow> (False, LocatorChangeModel_markAutoApplied now changeId False st)
      | Some change \<Rightarrow> (True, LocatorChangeModel_markAutoApplied now changeId True st))"

record RecordParams =
  rp_failureId :: "string option"
  rp_oldLocator :: Locator
  rp_newLocator :: Locator
  rp_strategy :: string
  rp_confidence :: jsnum

text \<open>
  \<open>recordHealingAttempt\<close> has no \<open>try\<close>: an insert that the database refuses ends
  it, and \<open>healLocator\<close> above it, with the exception.
\<close>

definition recordHealingAttempt ::
  "int \<Rightarrow> nat \<Rightarrow> RecordParams \<Rightarrow> Store \<Rightarrow> db_error + nat \<times> Store" where
  "recordHealingAttempt autoApplyThreshold now params st =
     (let status = (if js_ge (rp_confidence params) (Fin (real_of_int autoApplyThreshold))
                    then auto_applied else pending_approval)
      in case LocatorChangeModel_create now
              \<lparr>cd_testCaseId = None,
               cd_failureId = rp_failureId params,
               cd_oldLocator = rp_oldLocator params,
               cd_newLocator = rp_newLocator params,
               cd_healingStrategy = rp_strategy params,
               cd_confidence = rp_confidence params,
               cd_status = Some status,
               cd_metadata = Some \<lparr>md_timestamp = now,
                                    md_autoApplyThreshold = autoApplyThreshold\<rparr>\<rparr> st of
           Inl e \<Rightarrow> Inl e
         | Inr (changeId, st1) \<Rightarrow>
             if status = auto_applied
             then Inr (changeId, snd (applyLocatorChange now changeId st1))
             else Inr (changeId, st1))"

text \<open>
  \<open>updateLocatorsFile\<close>, the only code that writes locators.json: it promotes the
  new locator to primary, puts the old primary at the head of the fallbacks and
  appends a healing record. It is private and no function of the service calls it.
\<close>

definition updateLocatorsFile ::
  "nat \<Rightarrow> string \<Rightarrow> string \<Rightarrow> Locator \<Rightarrow> Locator \<Rightarrow> Store \<Rightarrow> Store" where
  "updateLocatorsFile now page element newPrimary oldPrimary st =
     (case locators_file st (page, element) of
        None \<Rightarrow> st
      | Some d \<Rightarrow>
          st\<lparr>locators_file := (locators_file st)((page, element) \<mapsto>
               d\<lparr>primary := newPrimary,
                 fallbacks := oldPrimary # fallbacks d,
                 lastVerified := now,
                 healingHistory := healingHistory d @
                   [\<lparr>h_date = now, h_oldLocator = oldPrimary, h_newLocator = newPrimary,
                     h_reason = ''Self-healing applied''\<rparr>]\<rparr>)\<rparr>)"

text \<open>
  The two stages of \<open>healLocator\<close>. A stage yields its result only when it ran and
  reported success: the fallback stage runs for a non-empty list of fallbacks, the AI
  stage for a truthy (present and non-empty) screenshot.
\<close>

definition fallbackStage :: "HealParams \<Rightarrow> HealingResult option" where
  "fallbackStage params =
     (case hp_fallbackLocators params of
        Some (f # fs) \<Rightarrow>
          (let fallbackResult = tryFallbackChain (f # fs)
           in if hr_success fallbackResult then Some fallbackResult else None)
      | _ \<Rightarrow> None)"

definition aiRequest :: "HealParams \<Rightarrow> string \<Rightarrow> SuggestParams" where
  "aiRequest params shot =
     \<lparr>sp_locatorType = loc_type (hp_failedLocator params),
      sp_locatorValue = loc_value (hp_failedLocator params),
      sp_error = hp_error params,
      sp_pageContext = hp_page params @ ''.'' @ hp_element params,
      sp_screenshot = shot\<rparr>"

definition aiStage ::
  "(SuggestParams \<Rightarrow> oracle_suggestion) \<Rightarrow> HealParams \<Rightarrow> HealingResult option" where
  "aiStage claudeClient params =
     (case hp_screenshot params of
        None \<Rightarrow> None
      | Some shot \<Rightarrow>
          if shot = [] then None
          else (let aiResult = tryAISuggestion claudeClient (aiRequest params shot)
                in if hr_success aiResult then Some aiResult else None))"

definition recordAndReturn ::
  "int \<Rightarrow> nat \<Rightarrow> HealParams \<Rightarrow> string \<Rightarrow> HealingResult \<Rightarrow> Store
     \<Rightarrow> db_error + HealingResult \<times> Store" where
  "recordAndReturn autoApplyThreshold now params strat result st =
     (case recordHealingAttempt autoApplyThreshold now
             \<lparr>rp_failureId = hp_failureId params,
              rp_oldLocator = hp_failedLocator params,
              rp_newLocator = the (hr_newLocator result),
              rp_strategy = strat,
              rp_confidence = hr_confidence result\<rparr> st of
        Inl e \<Rightarrow> Inl e
      | Inr (changeId, st') \<Rightarrow> Inr (result\<lparr>hr_changeId := Some changeId\<rparr>, st'))"

definition healLocator ::
  "int \<Rightarrow> nat \<Rightarrow> (SuggestParams \<Rightarrow> oracle_suggestion) \<Rightarrow> HealParams \<Rightarrow> Store
     \<Rightarrow> db_error + HealingResult \<times> Store" where
  "healLocator autoApplyThreshold now claudeClient params st =
     (case fallbackStage params of
        Some fallbackResult \<Rightarrow>
          recordAndReturn autoApplyThreshold now params ''fallback_chain'' fallbackResult st
      | None \<Rightarrow>
          (case aiStage claudeClient params of
             Some aiResult \<Rightarrow>
               recordAndReturn autoApplyThreshold now params ''ai_suggested'' aiResult st
           | None \<Rightarrow>
               Inr (\<lparr>hr_success = False, hr_newLocator = None, hr_confidence = Fin 0,
                     hr_strategy = ''none'', hr_changeId = None\<rparr>, st)))"

definition approveChange :: "nat \<Rightarrow> nat \<Rightarrow> Store \<Rightarrow> bool \<times> Store" where
  "approveChange now changeId st =
     applyLocatorChange now changeId (LocatorChangeModel_approve now changeId st)"

definition rejectChange :: "nat \<Rightarrow> nat \<Rightarrow> Store \<Rightarrow> Store" where
  "rejectChange now changeId st = LocatorChangeModel_reject now changeId st"

section \<open>The approval endpoints (healing.controller.ts)\<close>

record Response =
  res_status :: nat
  res_success :: bool
  res_error :: "string option"
  res_message :: "string option"
  res_applied :: "bool option"

definition approveLocatorChange :: "nat \<Rightarrow> nat \<Rightarrow> Store \<Rightarrow> Response \<times> Store" where
  "approveLocatorChange now changeId st =
     (case LocatorChangeModel_findById changeId st of
        None \<Rightarrow>
          (\<lparr>res_status = 404, res_success = False,
            res_error = Some ''Locator change not found'',
            res_message = None, res_applied = None\<rparr>, st)
      | Some change \<Rightarrow>
          if lc_status change \<noteq> pending_approval
          then (\<lparr>res_status = 400, res_success = False,
                 res_error = Some (''Cannot approve change with status: ''
                                     @ ChangeStatus_value (lc_status change)),
                 res_message = None, res_applied = None\<rparr>, st)
          else (let (success, st') = approveChange now changeId st
                in (\<lparr>res_status = 200, res_success = True, res_error = None,
                     res_message = Some (if success
                                         then ''Locator change approved and applied''
                                         else ''Locator change approved but application failed''),
                     res_applied = Some success\<rparr>, st')))"

definition rejectLocatorChange :: "nat \<Rightarrow> nat \<Rightarrow> Store \<Rightarrow> Response \<times> Store" where
  "rejectLocatorChange now changeId st =
     (case LocatorChangeModel_findById changeId st of
        None \<Rightarrow>
          (\<lparr>res_status = 404, res_success = False,
            res_error = Some ''Locator change not found'',
            res_message = None, res_applied = None\<rparr>, st)
      | Some change \<Rightarrow>
          if lc_status change \<noteq> pending_approval
          then (\<lparr>res_status = 400, res_success = False,
                 res_error = Some (''Cannot reject change with status: ''
                                     @ ChangeStatus_value (lc_status change)),
                 res_message = None, res_applied = None\<rparr>, st)
          else (\<lparr>res_status = 200, res_success = True, res_error = None,
                 res_message = Some ''Locator change rejected'',
                 res_applied = None\<rparr>, rejectChange now changeId st))"

section \<open>The repair pipeline as the specification words it\<close>






section \<open>Concrete inputs\<close>

text \<open>
  The failure contexts, oracle answers, healing requests and stores at which the
  properties below are evaluated. \<open>pending_store\<close> holds the one change that
  healing the request \<open>scenarioA\<close> at time 7 leaves behind, \<open>rejected_store\<close>
  the same change after its rejection at time 8. \<open>once_healed_store\<close> and
  \<open>twice_healed_store\<close> hold the changes that healing \<open>photo_request\<close> with the
  suggestions of \<open>helpful_oracle\<close> leaves behind, at time 7 and again at time 8.
  \<open>live_store\<close> has a locators.json with the definition of the username field.
  \<open>sample_runtime\<close> stands for the language's conversions where a closed term needs
  one; the payloads below carry numbers and never consult it.
\<close>

definition crash_context :: FailureContext where
  "crash_context =
     \<lparr>testName = ''checkout'', platform = ''android'',
      errorMessage = ''Application crashed'', stackTrace = ''at Checkout.pay'',
      locatorUsed = None, screenshot = None, logs = None\<rparr>"





definition store0 :: Store where
  "store0 =
     \<lparr>locator_changes = Map.empty, next_id = 0, test_cases = {}, failures = {},
      locators_file = Map.empty\<rparr>"

definition failed_locator :: Locator where
  "failed_locator = \<lparr>loc_type = ''id'', loc_value = ''username_input''\<rparr>"

definition username_xpath :: Locator where
  "username_xpath = \<lparr>loc_type = ''xpath'', loc_value = ''//EditText[@content-desc=Username]''\<rparr>"

definition username_accessibility :: Locator where
  "username_accessibility = \<lparr>loc_type = ''accessibilityId'', loc_value = ''username''\<rparr>"


definition bare_request :: HealParams where
  "bare_request =
     \<lparr>hp_page = ''loginPage'', hp_element = ''username'',
      hp_failedLocator = failed_locator,
      hp_fallbackLocators = None,
      hp_error = ''NoSuchElementError: element not found'',
      hp_screenshot = None, hp_failureId = None\<rparr>"

definition photo_request :: HealParams where
  "photo_request = bare_request\<lparr>hp_screenshot := Some ''png''\<rparr>"


definition best_suggestion :: LocatorSuggestion where
  "best_suggestion =
     \<lparr>sug_type = ''accessibilityId'', sug_value = ''username'', sug_confidence = Fin 95,
      sug_reasoning = ''stable''\<rparr>"

definition helpful_suggestions :: "LocatorSuggestion list" where
  "helpful_suggestions =
     [\<lparr>sug_type = ''xpath'', sug_value = ''//EditText[1]'', sug_confidence = Fin 70,
       sug_reasoning = ''position''\<rparr>,
      best_suggestion,
      \<lparr>sug_type = ''class'', sug_value = ''android.widget.EditText'', sug_confidence = Fin 80,
       sug_reasoning = ''only input''\<rparr>]"

definition helpful_oracle :: "SuggestParams \<Rightarrow> oracle_suggestion" where
  "helpful_oracle =
     (\<lambda>_. Suggested
        \<lparr>suggestedLocators = helpful_suggestions,
         elementDescription = ''Username field'',
         additionalNotes = None\<rparr>)"

definition pending_row :: LocatorChange where
  "pending_row =
     \<lparr>lc_testCaseId = None, lc_failureId = None,
      lc_oldLocator = failed_locator,
      lc_newLocator = username_xpath,
      lc_healingStrategy = ''fallback_chain'', lc_confidence = 75,
      lc_status = pending_approval, lc_appliedAt = None, lc_success = None,
      lc_metadata = Some \<lparr>md_timestamp = 7, md_autoApplyThreshold = 85\<rparr>,
      lc_createdAt = 7, lc_updatedAt = 7\<rparr>"

definition pending_store :: Store where
  "pending_store =
     \<lparr>locator_changes = [0 \<mapsto> pending_row], next_id = 1, test_cases = {}, failures = {},
      locators_file = Map.empty\<rparr>"

definition rejected_store :: Store where
  "rejected_store =
     \<lparr>locator_changes = [0 \<mapsto> pending_row\<lparr>lc_status := rejected, lc_updatedAt := 8\<rparr>],
      next_id = 1, test_cases = {}, failures = {}, locators_file = Map.empty\<rparr>"

definition applied_row :: "nat \<Rightarrow> LocatorChange" where
  "applied_row t =
     \<lparr>lc_testCaseId = None, lc_failureId = None,
      lc_oldLocator = failed_locator,
      lc_newLocator = username_accessibility,
      lc_healingStrategy = ''ai_suggested'', lc_confidence = 95,
      lc_status = auto_applied, lc_appliedAt = Some t, lc_success = Some True,
      lc_metadata = Some \<lparr>md_timestamp = t, md_autoApplyThreshold = 85\<rparr>,
      lc_createdAt = t, lc_updatedAt = t\<rparr>"

definition applied_result :: "nat \<Rightarrow> HealingResult" where
  "applied_result changeId =
     \<lparr>hr_success = True, hr_newLocator = Some username_accessibility,
      hr_confidence = Fin 95, hr_strategy = ''ai_suggested'', hr_changeId = Some changeId\<rparr>"

definition once_healed_store :: Store where
  "once_healed_store =
     \<lparr>locator_changes = [0 \<mapsto> applied_row 7], next_id = 1, test_cases = {}, failures = {},
      locators_file = Map.empty\<rparr>"

definition twice_healed_store :: Store where
  "twice_healed_store =
     \<lparr>locator_changes = [0 \<mapsto> applied_row 7, 1 \<mapsto> applied_row 8], next_id = 2,
      test_cases = {}, failures = {}, locators_file = Map.empty\<rparr>"

definition username_definition :: LocatorDefinition where
  "username_definition =
     \<lparr>primary = failed_locator, fallbacks = [username_xpath], lastVerified = 1,
      healingHistory = []\<rparr>"

definition live_store :: Store where
  "live_store =
     \<lparr>locator_changes = Map.empty, next_id = 0, test_cases = {}, failures = {},
      locators_file = [(''loginPage'', ''username'') \<mapsto> username_definition]\<rparr>"

definition live_applied_store :: Store where
  "live_applied_store =
     \<lparr>locator_changes = [0 \<mapsto> applied_row 7], next_id = 1, test_cases = {}, failures = {},
      locators_file = [(''loginPage'', ''username'') \<mapsto> username_definition]\<rparr>"

definition confident_attempt :: RecordParams where
  "confident_attempt =
     \<lparr>rp_failureId = None, rp_oldLocator = failed_locator,
      rp_newLocator = username_accessibility, rp_strategy = ''ai_suggested'',
      rp_confidence = Fin 95\<rparr>"



section \<open>Properties of JavaScript numbers\<close>



lemma js_ge_Fin: "js_ge (Fin a) (Fin b) = (a \<ge> b)"
  by (auto simp: js_ge_def)

lemma clamp_Fin:
  "Math_max (Fin 0) (Math_min (Fin 100) (Fin x)) = Fin (max 0 (min 100 x))"
  by (simp add: Math_max_def Math_min_def max_def min_def)

lemma clamp_range:
  "x \<noteq> NaN \<Longrightarrow> \<exists>r. Math_max (Fin 0) (Math_min (Fin 100) x) = Fin r \<and> 0 \<le> r \<and> r \<le> 100"
  by (cases x) (auto simp: Math_max_def Math_min_def)

lemma add_scaled_not_NaN: "x \<noteq> NaN \<Longrightarrow> js_add (Fin c) (js_mul x (Fin 10)) \<noteq> NaN"
  by (cases x) (simp_all add: js_signed_inf_def)

section \<open>Properties of the confidence score\<close>

lemma strategy_adjust_sum:
  "strategy_adjust s c =
     c + (if s = ''ai_suggested'' then 30
          else if s = ''fallback_chain'' then 25
          else if s = ''similarity_match'' then 20 else 0)"
  by (simp add: strategy_adjust_def)

lemma locatorType_adjust_sum:
  "locatorType_adjust t c =
     c + (if t \<in> {''id'', ''accessibilityId''} then 15
          else if t = ''xpath'' then 5 else 0)"
  by (simp add: locatorType_adjust_def)

lemma previousFailures_adjust_sum:
  "previousFailures_adjust n c =
     c - (if js_gt n (Fin 5) then 20 else if js_gt n (Fin 2) then 10 else 0)"
  by (simp add: previousFailures_adjust_def)

lemma calculateHealingConfidence_unfold:
  "calculateHealingConfidence params =
     Math_max (Fin 0) (Math_min (Fin 100)
       (js_add (Fin (previousFailures_adjust (previousFailures params)
                  (locatorType_adjust (locatorType params)
                    (strategy_adjust (strategy params) 50))))
               (js_mul (elementStability params) (Fin 10))))"
  by (simp only: calculateHealingConfidence_def Let_def)

text \<open>
  C9, as the specification states it, fails on the code: \<open>elementStability\<close> is a
  \<open>number\<close>, and for \<open>NaN\<close> the score is \<open>NaN\<close>, since \<open>Math.min\<close> and
  \<open>Math.max\<close> hand \<open>NaN\<close> on. \<open>NaN\<close> is not in the interval from 0 to 100.
\<close>

theorem nan_stability_counterexample:
  "calculateHealingConfidence
     \<lparr>strategy = ''fallback_chain'', locatorType = ''xpath'',
      previousFailures = Fin 0, elementStability = NaN\<rparr> = NaN"
  by (simp add: calculateHealingConfidence_unfold Math_max_def Math_min_def)

text \<open>
  C9, amended. The confidence scorer is a total function of its parameters (the source
  has no throwing statement, the model no error value) and a function of them alone,
  so equal parameters give equal scores. For every input whose element stability is
  not \<open>NaN\<close>, the score is a finite number in the interval from 0 to 100.
\<close>

theorem calculateHealingConfidence_range:
  "(elementStability params \<noteq> NaN \<longrightarrow>
      (\<exists>r. calculateHealingConfidence params = Fin r \<and> 0 \<le> r \<and> r \<le> 100))
   \<and> (params = params' \<longrightarrow>
        calculateHealingConfidence params = calculateHealingConfidence params')"
proof (intro conjI impI)
  assume "elementStability params \<noteq> NaN"
  then have "js_add (Fin (previousFailures_adjust (previousFailures params)
                  (locatorType_adjust (locatorType params)
                    (strategy_adjust (strategy params) 50))))
               (js_mul (elementStability params) (Fin 10)) \<noteq> NaN"
    by (rule add_scaled_not_NaN)
  then show "\<exists>r. calculateHealingConfidence params = Fin r \<and> 0 \<le> r \<and> r \<le> 100"
    unfolding calculateHealingConfidence_unfold by (rule clamp_range)
next
  assume "params = params'"
  then show "calculateHealingConfidence params = calculateHealingConfidence params'"
    by simp
qed

theorem calculateHealingConfidence_range_witness:
  "\<exists>r. calculateHealingConfidence
          \<lparr>strategy = ''fallback_chain'', locatorType = ''xpath'',
           previousFailures = Fin 0, elementStability = PInf\<rparr> = Fin r
       \<and> 0 \<le> r \<and> r \<le> 100"
  using calculateHealingConfidence_range
    [of "\<lparr>strategy = ''fallback_chain'', locatorType = ''xpath'',
          previousFailures = Fin 0, elementStability = PInf\<rparr>"
        "\<lparr>strategy = ''fallback_chain'', locatorType = ''xpath'',
          previousFailures = Fin 0, elementStability = PInf\<rparr>"]
  by simp

text \<open>
  C3, as the specification states it, fails on the code: for an AI-suggested xpath
  locator with no earlier failure and stability 0 the code scores 85, the stated
  formula 75.
\<close>

theorem score_formula_counterexample:
  "calculateHealingConfidence
     \<lparr>strategy = ''ai_suggested'', locatorType = ''xpath'',
      previousFailures = Fin 0, elementStability = Fin 0\<rparr> = Fin 85
   \<and> spec_score ''ai_suggested'' ''xpath'' 0 0 None = 75"
  by (simp add: calculateHealingConfidence_def spec_score_def strategy_adjust_def
      locatorType_adjust_def previousFailures_adjust_def Let_def clamp_Fin)

text \<open>
  C3, amended. The score is the clamped sum of: the base 50; a strategy bonus of 30 for
  \<open>ai_suggested\<close>, 25 for \<open>fallback_chain\<close>, 20 for \<open>similarity_match\<close>, 0 for any
  other strategy; a locator-type bonus of 15 for \<open>id\<close> and \<open>accessibilityId\<close>, 5 for
  \<open>xpath\<close>, 0 for any other type; ten times the element stability; and a penalty of
  20 when there were more than five earlier failures, 10 when more than two, none
  otherwise. No test success rate enters the score. The first equation holds for every
  input, with the arithmetic of JavaScript numbers; the second is the same sum over the
  reals, for a finite stability.
\<close>

theorem calculateHealingConfidence_formula:
  "calculateHealingConfidence params =
     Math_max (Fin 0) (Math_min (Fin 100)
       (js_add
          (Fin (50
             + (if strategy params = ''ai_suggested'' then 30
                else if strategy params = ''fallback_chain'' then 25
                else if strategy params = ''similarity_match'' then 20 else 0)
             + (if locatorType params \<in> {''id'', ''accessibilityId''} then 15
                else if locatorType params = ''xpath'' then 5 else 0)
             - (if js_gt (previousFailures params) (Fin 5) then 20
                else if js_gt (previousFailures params) (Fin 2) then 10 else 0)))
          (js_mul (elementStability params) (Fin 10))))
   \<and> (\<forall>s. elementStability params = Fin s \<longrightarrow>
        calculateHealingConfidence params =
          Fin (max 0 (min 100
            (50
             + (if strategy params = ''ai_suggested'' then 30
                else if strategy params = ''fallback_chain'' then 25
                else if strategy params = ''similarity_match'' then 20 else 0)
             + (if locatorType params \<in> {''id'', ''accessibilityId''} then 15
                else if locatorType params = ''xpath'' then 5 else 0)
             + 10 * s
             - (if js_gt (previousFailures params) (Fin 5) then 20
                else if js_gt (previousFailures params) (Fin 2) then 10 else 0)))))"
proof -
  let ?base = "50
             + (if strategy params = ''ai_suggested'' then 30
                else if strategy params = ''fallback_chain'' then 25
                else if strategy params = ''similarity_match'' then 20 else 0)
             + (if locatorType params \<in> {''id'', ''accessibilityId''} then 15
                else if locatorType params = ''xpath'' then 5 else 0)
             - (if js_gt (previousFailures params) (Fin 5) then 20
                else if js_gt (previousFailures params) (Fin 2) then (10::real) else 0)"
  have base: "previousFailures_adjust (previousFailures params)
                (locatorType_adjust (locatorType params)
                  (strategy_adjust (strategy params) 50)) = ?base"
    unfolding strategy_adjust_sum locatorType_adjust_sum previousFailures_adjust_sum ..
  have general: "calculateHealingConfidence params =
     Math_max (Fin 0) (Math_min (Fin 100)
       (js_add (Fin ?base) (js_mul (elementStability params) (Fin 10))))"
    by (simp only: calculateHealingConfidence_unfold base)
  have finite: "calculateHealingConfidence params =
      Fin (max 0 (min 100 (?base + 10 * s)))" if "elementStability params = Fin s" for s
  proof -
    have "js_add (Fin ?base) (js_mul (Fin s) (Fin 10)) = Fin (?base + 10 * s)"
      by (simp only: js_mul.simps js_add.simps mult.commute [of s 10])
    with that show ?thesis
      by (simp only: general clamp_Fin)
  qed
  have reorder: "?base + 10 * s =
            50
             + (if strategy params = ''ai_suggested'' then 30
                else if strategy params = ''fallback_chain'' then 25
                else if strategy params = ''similarity_match'' then 20 else 0)
             + (if locatorType params \<in> {''id'', ''accessibilityId''} then 15
                else if locatorType params = ''xpath'' then 5 else 0)
             + 10 * s
             - (if js_gt (previousFailures params) (Fin 5) then 20
                else if js_gt (previousFailures params) (Fin 2) then 10 else 0)" for s
    by (simp only: add_diff_eq diff_add_eq)
  have second: "\<forall>s. elementStability params = Fin s \<longrightarrow>
        calculateHealingConfidence params =
          Fin (max 0 (min 100
            (50
             + (if strategy params = ''ai_suggested'' then 30
                else if strategy params = ''fallback_chain'' then 25
                else if strategy params = ''similarity_match'' then 20 else 0)
             + (if locatorType params \<in> {''id'', ''accessibilityId''} then 15
                else if locatorType params = ''xpath'' then 5 else 0)
             + 10 * s
             - (if js_gt (previousFailures params) (Fin 5) then 20
                else if js_gt (previousFailures params) (Fin 2) then 10 else 0))))"
  proof (intro allI impI)
    fix s assume "elementStability params = Fin s"
    then have "calculateHealingConfidence params = Fin (max 0 (min 100 (?base + 10 * s)))"
      by (rule finite)
    then show "calculateHealingConfidence params =
          Fin (max 0 (min 100
            (50
             + (if strategy params = ''ai_suggested'' then 30
                else if strategy params = ''fallback_chain'' then 25
                else if strategy params = ''similarity_match'' then 20 else 0)
             + (if locatorType params \<in> {''id'', ''accessibilityId''} then 15
                else if locatorType params = ''xpath'' then 5 else 0)
             + 10 * s
             - (if js_gt (previousFailures params) (Fin 5) then 20
                else if js_gt (previousFailures params) (Fin 2) then 10 else 0))))"
      by (simp only: reorder)
  qed
  from general second show ?thesis by (rule conjI)
qed

theorem calculateHealingConfidence_formula_witness:
  "calculateHealingConfidence
     \<lparr>strategy = ''fallback_chain'', locatorType = ''xpath'',
      previousFailures = Fin 3, elementStability = Fin (85 / 100)\<rparr> = Fin (785 / 10)"
  using calculateHealingConfidence_formula
    [of "\<lparr>strategy = ''fallback_chain'', locatorType = ''xpath'',
          previousFailures = Fin 3, elementStability = Fin (85 / 100)\<rparr>",
     THEN conjunct1]
  by (simp add: clamp_Fin)

section \<open>Properties of the triage classifier\<close>


lemma validCategories_complete: "c \<in> set validCategories"
  by (cases c) (simp_all add: validCategories_def)

lemma FailureCategory_value_inj:
  "FailureCategory_value c = FailureCategory_value d \<Longrightarrow> c = d"
  by (cases c; cases d) simp_all






text \<open>
  C4. With the oracle unreachable and an error message that matches none of the
  fallback rules, the result carries confidence 50 but no category: the code assigns
  \<open>FailureCategory.UNKNOWN\<close>, which the enum does not define.
\<close>

theorem fallback_unmatched_category_undefined:
  "category (analyzeFailure rt (\<lambda>_. CallFails) crash_context) = None
   \<and> confidence (analyzeFailure rt (\<lambda>_. CallFails) crash_context) = Fin 50
   \<and> bugProbability (analyzeFailure rt (\<lambda>_. CallFails) crash_context) = Fin 50"
  by (simp add: analyzeFailure_def getFallbackAnalysis_def crash_context_def
      toLowerCase_def toLowerCase_char_def FailureCategory_UNKNOWN_def
      calculateBugProbability_def js_sub_def clamp_Fin)




section \<open>Properties of locator healing\<close>

lemma update_row_lookup:
  "locator_changes (update_row changeId f st) x =
     (if x = changeId then map_option f (locator_changes st changeId)
      else locator_changes st x)"
  by (simp add: update_row_def split: option.splits)

lemma update_row_rest:
  "next_id (update_row changeId f st) = next_id st"
  "locators_file (update_row changeId f st) = locators_file st"
  "failures (update_row changeId f st) = failures st"
  "test_cases (update_row changeId f st) = test_cases st"
  by (simp_all add: update_row_def split: option.splits)

lemma stored_confidence_exact:
  "integer_in_range c \<Longrightarrow> Fin (real_of_int (stored_confidence c)) = c"
  by (cases c) (simp_all add: integer_in_range_def stored_confidence_def)

lemma create_error_None_iff:
  "create_error data st = None \<longleftrightarrow>
     integer_in_range (cd_confidence data)
     \<and> cd_healingStrategy data \<in> healing_strategies
     \<and> references (test_cases st) (cd_testCaseId data)
     \<and> references (failures st) (cd_failureId data)"
  by (cases "cd_confidence data") (auto simp: create_error_def integer_in_range_def)




lemma recordHealingAttempt_Inr:
  assumes "recordHealingAttempt thr now params st = Inr (changeId, st')"
  shows "changeId = next_id st \<and> next_id st' = Suc (next_id st)
    \<and> locators_file st' = locators_file st
    \<and> failures st' = failures st
    \<and> integer_in_range (rp_confidence params)
    \<and> references (failures st) (rp_failureId params)
    \<and> (\<forall>i. i \<noteq> next_id st \<longrightarrow> locator_changes st' i = locator_changes st i)
    \<and> (\<exists>row. locator_changes st' changeId = Some row
          \<and> Fin (real_of_int (lc_confidence row)) = rp_confidence params
          \<and> lc_healingStrategy row = rp_strategy params
          \<and> lc_oldLocator row = rp_oldLocator params
          \<and> lc_newLocator row = rp_newLocator params
          \<and> lc_status row = (if js_ge (rp_confidence params) (Fin (real_of_int thr))
                              then auto_applied else pending_approval)
          \<and> lc_appliedAt row = (if js_ge (rp_confidence params) (Fin (real_of_int thr))
                                 then Some now else None)
          \<and> lc_success row = (if js_ge (rp_confidence params) (Fin (real_of_int thr))
                                then Some True else None))"
proof -
  let ?status = "if js_ge (rp_confidence params) (Fin (real_of_int thr))
                 then auto_applied else pending_approval"
  let ?data = "\<lparr>cd_testCaseId = None,
               cd_failureId = rp_failureId params,
               cd_oldLocator = rp_oldLocator params,
               cd_newLocator = rp_newLocator params,
               cd_healingStrategy = rp_strategy params,
               cd_confidence = rp_confidence params,
               cd_status = Some ?status,
               cd_metadata = Some \<lparr>md_timestamp = now, md_autoApplyThreshold = thr\<rparr>\<rparr>"
  from assms have ok: "create_error ?data st = None"
    by (cases "create_error ?data st")
       (simp_all add: recordHealingAttempt_def LocatorChangeModel_create_def Let_def)
  then have acc: "integer_in_range (rp_confidence params)"
    and ref: "references (failures st) (rp_failureId params)"
    by (simp_all add: create_error_None_iff)
  note exact = stored_confidence_exact [OF acc]
  show ?thesis
  proof (cases "js_ge (rp_confidence params) (Fin (real_of_int thr))")
    case True
    with assms ok acc ref exact show ?thesis
      by (auto simp: recordHealingAttempt_def LocatorChangeModel_create_def
          applyLocatorChange_def LocatorChangeModel_findById_def
          LocatorChangeModel_markAutoApplied_def update_row_def Let_def)
  next
    case False
    with assms ok acc ref exact show ?thesis
      by (auto simp: recordHealingAttempt_def LocatorChangeModel_create_def Let_def)
  qed
qed



lemma recordAndReturn_Inr:
  assumes "recordAndReturn thr now params strat r st = Inr (result, st')"
  shows "result = r\<lparr>hr_changeId := Some (next_id st)\<rparr>
    \<and> next_id st' = Suc (next_id st)
    \<and> locators_file st' = locators_file st
    \<and> failures st' = failures st
    \<and> integer_in_range (hr_confidence r)
    \<and> references (failures st) (hp_failureId params)
    \<and> (\<forall>i. i \<noteq> next_id st \<longrightarrow> locator_changes st' i = locator_changes st i)
    \<and> (\<exists>row. locator_changes st' (next_id st) = Some row
          \<and> Fin (real_of_int (lc_confidence row)) = hr_confidence r
          \<and> lc_healingStrategy row = strat
          \<and> lc_status row = (if js_ge (hr_confidence r) (Fin (real_of_int thr))
                              then auto_applied else pending_approval))"
proof -
  let ?p = "\<lparr>rp_failureId = hp_failureId params, rp_oldLocator = hp_failedLocator params,
        rp_newLocator = the (hr_newLocator r), rp_strategy = strat,
        rp_confidence = hr_confidence r\<rparr>"
  from assms obtain changeId where rec:
    "recordHealingAttempt thr now ?p st = Inr (changeId, st')"
    and res: "result = r\<lparr>hr_changeId := Some changeId\<rparr>"
    by (auto simp: recordAndReturn_def split: sum.splits)
  from recordHealingAttempt_Inr [OF rec] res show ?thesis by auto
qed



lemma fallbackStage_Some:
  assumes "fallbackStage params = Some r"
  shows "\<exists>f fs. hp_fallbackLocators params = Some (f # fs)
           \<and> r = \<lparr>hr_success = True, hr_newLocator = Some f, hr_confidence = Fin 75,
                  hr_strategy = ''fallback_chain'', hr_changeId = None\<rparr>"
  using assms
  by (auto simp: fallbackStage_def tryFallbackChain_def Let_def
      split: option.splits list.splits if_splits)



lemma aiStage_Some:
  assumes "aiStage claudeClient params = Some r"
  shows "\<exists>shot. hp_screenshot params = Some shot \<and> shot \<noteq> []
           \<and> suggestedLocators (suggestLocators claudeClient (aiRequest params shot)) \<noteq> []
           \<and> r = (let best = bestSuggestion
                         (suggestedLocators (suggestLocators claudeClient (aiRequest params shot)))
                  in \<lparr>hr_success = True,
                      hr_newLocator = Some \<lparr>loc_type = sug_type best, loc_value = sug_value best\<rparr>,
                      hr_confidence = sug_confidence best,
                      hr_strategy = ''ai_suggested'', hr_changeId = None\<rparr>)"
  using assms
  by (auto simp: aiStage_def tryAISuggestion_def Let_def split: option.splits if_splits)



lemma healLocator_success:
  assumes "healLocator thr now claudeClient params st = Inr (result, st')"
    and "hr_success result"
  shows "hr_changeId result = Some (next_id st) \<and> next_id st' = Suc (next_id st)
    \<and> locators_file st' = locators_file st
    \<and> (\<forall>i. i \<noteq> next_id st \<longrightarrow> locator_changes st' i = locator_changes st i)
    \<and> (\<exists>row. locator_changes st' (next_id st) = Some row
          \<and> Fin (real_of_int (lc_confidence row)) = hr_confidence result
          \<and> lc_healingStrategy row = hr_strategy result
          \<and> lc_status row = (if js_ge (hr_confidence result) (Fin (real_of_int thr))
                              then auto_applied else pending_approval))
    \<and> ((hr_strategy result = ''fallback_chain'' \<and> hr_confidence result = Fin 75)
       \<or> (hr_strategy result = ''ai_suggested''
           \<and> (\<exists>shot. hp_screenshot params = Some shot
                 \<and> suggestedLocators (suggestLocators claudeClient (aiRequest params shot)) \<noteq> []
                 \<and> hr_confidence result =
                     sug_confidence (bestSuggestion (suggestedLocators
                       (suggestLocators claudeClient (aiRequest params shot)))))))"
proof (cases "fallbackStage params")
  case (Some r)
  with assms have rr:
    "recordAndReturn thr now params ''fallback_chain'' r st = Inr (result, st')"
    by (simp add: healLocator_def)
  from fallbackStage_Some [OF Some] have "hr_confidence r = Fin 75"
    and "hr_strategy r = ''fallback_chain''"
    by auto
  with recordAndReturn_Inr [OF rr] show ?thesis by auto
next
  case None
  show ?thesis
  proof (cases "aiStage claudeClient params")
    case ai: (Some r)
    with None assms have rr:
      "recordAndReturn thr now params ''ai_suggested'' r st = Inr (result, st')"
      by (simp add: healLocator_def)
    from aiStage_Some [OF ai] obtain shot where
      "hp_screenshot params = Some shot" and "hr_strategy r = ''ai_suggested''"
      and "suggestedLocators (suggestLocators claudeClient (aiRequest params shot)) \<noteq> []"
      and "hr_confidence r = sug_confidence (bestSuggestion (suggestedLocators
             (suggestLocators claudeClient (aiRequest params shot))))"
      by (auto simp: Let_def)
    with recordAndReturn_Inr [OF rr] show ?thesis by auto
  next
    case noai: None
    with None assms show ?thesis by (auto simp: healLocator_def)
  qed
qed


lemma reject_pending_store:
  "rejectLocatorChange 8 0 pending_store =
     (\<lparr>res_status = 200, res_success = True, res_error = None,
       res_message = Some ''Locator change rejected'', res_applied = None\<rparr>,
      rejected_store)"
  by (simp add: rejectLocatorChange_def LocatorChangeModel_findById_def rejectChange_def
      LocatorChangeModel_reject_def update_row_def pending_store_def pending_row_def
      rejected_store_def)

lemma helpful_best: "bestSuggestion helpful_suggestions = best_suggestion"
  by (simp add: bestSuggestion_def helpful_suggestions_def better_def best_suggestion_def)

lemma helpful_nonempty: "helpful_suggestions \<noteq> []"
  by (simp add: helpful_suggestions_def)

lemma photo_fallback_stage: "fallbackStage photo_request = None"
  by (simp add: fallbackStage_def photo_request_def bare_request_def)

lemma photo_ai_stage:
  "aiStage helpful_oracle photo_request =
     Some \<lparr>hr_success = True, hr_newLocator = Some username_accessibility,
           hr_confidence = Fin 95, hr_strategy = ''ai_suggested'', hr_changeId = None\<rparr>"
  by (simp add: aiStage_def tryAISuggestion_def suggestLocators_def helpful_oracle_def
      helpful_best helpful_nonempty photo_request_def bare_request_def best_suggestion_def
      username_accessibility_def Let_def)

lemma photo_request_heals:
  "healLocator 85 7 helpful_oracle photo_request store0
     = Inr (applied_result 0, once_healed_store)"
  "healLocator 85 8 helpful_oracle photo_request once_healed_store
     = Inr (applied_result 1, twice_healed_store)"
  unfolding healLocator_def photo_fallback_stage photo_ai_stage
  by (simp_all add: photo_request_def bare_request_def
      recordAndReturn_def recordHealingAttempt_def LocatorChangeModel_create_def
      create_error_def healing_strategies_def references_def or_null_def
      stored_confidence_def js_ge_def applyLocatorChange_def
      LocatorChangeModel_findById_def LocatorChangeModel_markAutoApplied_def update_row_def
      store0_def once_healed_store_def twice_healed_store_def applied_row_def
      applied_result_def fun_upd_twist)




text \<open>
  C5. An attempt with confidence 95 under the threshold 85 is created as
  \<open>auto_applied\<close> and stamped as applied with \<open>success = true\<close> in the same call,
  but the change is not committed: locators.json still names the failed locator as the
  primary locator of the element. \<open>updateLocatorsFile\<close>, which would promote the new
  locator, is never called; \<open>recordHealingAttempt\<close> is not even told the page and
  the element.
\<close>

theorem auto_applied_without_commit:
  "autoApplyThreshold_config None = 85
   \<and> recordHealingAttempt 85 7 confident_attempt live_store = Inr (0, live_applied_store)
   \<and> map_option lc_status (locator_changes live_applied_store 0) = Some auto_applied
   \<and> map_option lc_appliedAt (locator_changes live_applied_store 0) = Some (Some 7)
   \<and> map_option lc_success (locator_changes live_applied_store 0) = Some (Some True)
   \<and> locators_file live_applied_store = locators_file live_store
   \<and> map_option primary (locators_file live_applied_store (''loginPage'', ''username''))
       = Some failed_locator
   \<and> map_option primary
       (locators_file
          (updateLocatorsFile 7 ''loginPage'' ''username'' username_accessibility
             failed_locator live_store)
          (''loginPage'', ''username''))
       = Some username_accessibility"
  by (simp add: autoApplyThreshold_config_def recordHealingAttempt_def
      LocatorChangeModel_create_def create_error_def healing_strategies_def
      references_def or_null_def stored_confidence_def js_ge_def applyLocatorChange_def
      LocatorChangeModel_findById_def LocatorChangeModel_markAutoApplied_def update_row_def
      confident_attempt_def live_store_def live_applied_store_def applied_row_def
      updateLocatorsFile_def username_definition_def)

text \<open>
  C6. Approving the pending change of the scenario above answers 200 ``approved and
  applied'', but the stored status of the change is then \<open>auto_applied\<close>, not
  \<open>approved\<close>: \<open>approveChange\<close> sets \<open>approved\<close> and then calls
  \<open>applyLocatorChange\<close>, whose \<open>markAutoApplied\<close> overwrites the status.
\<close>

theorem approve_ends_auto_applied:
  "map_option lc_status (locator_changes pending_store 0) = Some pending_approval
   \<and> map_option lc_status
       (locator_changes (LocatorChangeModel_approve 9 0 pending_store) 0) = Some approved
   \<and> fst (approveLocatorChange 9 0 pending_store) =
       \<lparr>res_status = 200, res_success = True, res_error = None,
        res_message = Some ''Locator change approved and applied'',
        res_applied = Some True\<rparr>
   \<and> map_option lc_status
       (locator_changes (snd (approveLocatorChange 9 0 pending_store)) 0)
       = Some auto_applied"
  by (simp add: approveLocatorChange_def approveChange_def applyLocatorChange_def
      LocatorChangeModel_findById_def LocatorChangeModel_approve_def
      LocatorChangeModel_markAutoApplied_def update_row_def pending_store_def
      pending_row_def)

text \<open>
  C7, as the specification states it, fails on the code: the model and the service
  carry no guard. \<open>LocatorChangeModel.approve\<close> turns the rejected change into an
  approved one, \<open>approveChange\<close> into an applied one, and \<open>rejectChange\<close> turns
  an applied change into a rejected one, each without an error.
\<close>

theorem unguarded_transition_counterexample:
  "map_option lc_status (locator_changes rejected_store 0) = Some rejected
   \<and> map_option lc_status
       (locator_changes (LocatorChangeModel_approve 9 0 rejected_store) 0) = Some approved
   \<and> fst (approveChange 9 0 rejected_store) = True
   \<and> map_option lc_status
       (locator_changes (snd (approveChange 9 0 rejected_store)) 0) = Some auto_applied
   \<and> map_option lc_status (locator_changes once_healed_store 0) = Some auto_applied
   \<and> map_option lc_status
       (locator_changes (rejectChange 9 0 once_healed_store) 0) = Some rejected"
  by (simp add: approveChange_def applyLocatorChange_def rejectChange_def
      LocatorChangeModel_findById_def LocatorChangeModel_approve_def
      LocatorChangeModel_reject_def LocatorChangeModel_markAutoApplied_def update_row_def
      rejected_store_def once_healed_store_def pending_row_def applied_row_def)

text \<open>
  C7, amended. The approve and reject endpoints, the handlers
  \<open>approveLocatorChange\<close> and \<open>rejectLocatorChange\<close> of the controller, act only on
  a change that is pending approval. For a change in any other state each of them
  answers 400 with an error that names the current status, and leaves the stored
  changes as they were. In particular approving a rejected change through the endpoint
  fails and the change stays rejected.
\<close>

theorem approve_reject_only_from_pending:
  assumes "locator_changes st changeId = Some change"
    and "lc_status change \<noteq> pending_approval"
  shows "approveLocatorChange now changeId st =
           (\<lparr>res_status = 400, res_success = False,
             res_error = Some (''Cannot approve change with status: ''
                                 @ ChangeStatus_value (lc_status change)),
             res_message = None, res_applied = None\<rparr>, st)
       \<and> rejectLocatorChange now changeId st =
           (\<lparr>res_status = 400, res_success = False,
             res_error = Some (''Cannot reject change with status: ''
                                 @ ChangeStatus_value (lc_status change)),
             res_message = None, res_applied = None\<rparr>, st)"
  using assms
  by (simp add: approveLocatorChange_def rejectLocatorChange_def
      LocatorChangeModel_findById_def)

theorem approve_reject_only_from_pending_witness:
  "snd (rejectLocatorChange 8 0 pending_store) = rejected_store
   \<and> approveLocatorChange 9 0 rejected_store =
       (\<lparr>res_status = 400, res_success = False,
         res_error = Some ''Cannot approve change with status: rejected'',
         res_message = None, res_applied = None\<rparr>, rejected_store)
   \<and> map_option lc_status (locator_changes rejected_store 0) = Some rejected"
proof -
  have row: "locator_changes rejected_store 0
               = Some (pending_row\<lparr>lc_status := rejected, lc_updatedAt := 8\<rparr>)"
    by (simp add: rejected_store_def)
  have st: "lc_status (pending_row\<lparr>lc_status := rejected, lc_updatedAt := 8\<rparr>)
              \<noteq> pending_approval"
    by simp
  show ?thesis
    using approve_reject_only_from_pending [OF row st, of 9]
    by (simp add: reject_pending_store rejected_store_def)
qed




text \<open>
  C10, as the specification states it, fails on the code. Two heal operations on the
  same element, the second run after the first has finished, both commit: each inserts
  a change of its own, and both changes end \<open>auto_applied\<close>. The second call is
  neither refused nor shown the change that the first applied.
\<close>

theorem both_heals_commit_counterexample:
  "healLocator 85 7 helpful_oracle photo_request store0
     = Inr (applied_result 0, once_healed_store)
   \<and> healLocator 85 8 helpful_oracle photo_request once_healed_store
     = Inr (applied_result 1, twice_healed_store)
   \<and> map_option lc_status (locator_changes twice_healed_store 0) = Some auto_applied
   \<and> map_option lc_status (locator_changes twice_healed_store 1) = Some auto_applied
   \<and> map_option lc_oldLocator (locator_changes twice_healed_store 0)
       = map_option lc_oldLocator (locator_changes twice_healed_store 1)"
  by (simp add: photo_request_heals twice_healed_store_def applied_row_def)

text \<open>
  C10, amended. The code holds no lock for an element and a heal operation reads no
  earlier change. When two successful heal operations run one after the other, on the
  same element or not, each stores a change of its own under a fresh id, the second
  leaves the change of the first as it is, and each change is \<open>auto_applied\<close> exactly
  when its own confidence reaches the threshold and \<open>pending_approval\<close> otherwise.
  So both commit whenever both confidences reach the threshold.
\<close>

theorem sequential_heals_commit_independently:
  assumes "healLocator thr now1 client1 params1 st = Inr (result1, st1)"
    and "healLocator thr now2 client2 params2 st1 = Inr (result2, st2)"
    and "hr_success result1" and "hr_success result2"
  shows "\<exists>id1 id2 row1 row2.
           hr_changeId result1 = Some id1 \<and> hr_changeId result2 = Some id2 \<and> id1 \<noteq> id2
         \<and> locator_changes st1 id1 = Some row1
         \<and> locator_changes st2 id1 = Some row1
         \<and> locator_changes st2 id2 = Some row2
         \<and> lc_status row1 = (if js_ge (hr_confidence result1) (Fin (real_of_int thr))
                             then auto_applied else pending_approval)
         \<and> lc_status row2 = (if js_ge (hr_confidence result2) (Fin (real_of_int thr))
                             then auto_applied else pending_approval)
         \<and> locators_file st2 = locators_file st"
proof -
  note first = healLocator_success [OF assms(1) assms(3)]
  note second = healLocator_success [OF assms(2) assms(4)]
  from first obtain row1 where r1: "locator_changes st1 (next_id st) = Some row1"
    and s1: "lc_status row1 = (if js_ge (hr_confidence result1) (Fin (real_of_int thr))
                             then auto_applied else pending_approval)"
    by blast
  from second obtain row2 where r2: "locator_changes st2 (next_id st1) = Some row2"
    and s2: "lc_status row2 = (if js_ge (hr_confidence result2) (Fin (real_of_int thr))
                             then auto_applied else pending_approval)"
    by blast
  from first have n1: "next_id st1 = Suc (next_id st)"
    and c1: "hr_changeId result1 = Some (next_id st)"
    and f1: "locators_file st1 = locators_file st"
    by blast+
  from second have c2: "hr_changeId result2 = Some (next_id st1)"
    and keep: "\<forall>i. i \<noteq> next_id st1 \<longrightarrow> locator_changes st2 i = locator_changes st1 i"
    and f2: "locators_file st2 = locators_file st1"
    by blast+
  from n1 have ne: "next_id st \<noteq> next_id st1" by simp
  with keep r1 have r1': "locator_changes st2 (next_id st) = Some row1" by simp
  from c1 c2 ne r1 r1' r2 s1 s2 f1 f2 show ?thesis by auto
qed

theorem sequential_heals_commit_independently_witness:
  "\<exists>row1 row2.
      locator_changes twice_healed_store 0 = Some row1
    \<and> locator_changes twice_healed_store 1 = Some row2
    \<and> lc_status row1 = auto_applied \<and> lc_status row2 = auto_applied"
proof -
  have s: "hr_success (applied_result 0)" "hr_success (applied_result 1)"
    by (simp_all add: applied_result_def)
  from sequential_heals_commit_independently
         [OF photo_request_heals(1) photo_request_heals(2) s]
  show ?thesis
    by (auto simp: applied_result_def js_ge_def)
qed

end
